theory Spec2Isabelle
  imports Main
begin

section \<open>Data model\<close>

text \<open>
  The shapes that \<^verbatim>\<open>App.tsx\<close> imports from \<^verbatim>\<open>./types\<close>, restricted to the fields the
  component reads or writes. A field that the component treats as optional (it guards
  the read with \<^verbatim>\<open>?.\<close>, \<^verbatim>\<open>||\<close> or a truthiness test) is an \<open>option\<close>; \<open>None\<close> stands for
  \<^verbatim>\<open>undefined\<close>/\<^verbatim>\<open>null\<close>.
\<close>

record user =
  u_id :: string
  u_username :: string
  u_avatar :: "string option"

record message =
  msg_id :: string
  channelId :: string
  content :: string
  senderId :: string
  senderName :: string
  senderAvatar :: "string option"
  timestamp :: nat
  isSystem :: bool

datatype channel_type = TextChannel | VoiceChannel

record channel =
  ch_id :: string
  ch_name :: string
  ch_type :: channel_type
  ch_messages :: "message list option"

record server_member =
  m_userId :: string
  m_username :: string
  m_avatar :: string
  m_roles :: "string list"

typedecl role

record server =
  srv_id :: string
  srv_name :: string
  srv_password :: "string option"
  srv_ownerId :: string
  srv_channels :: "channel list"
  srv_roles :: "role list"
  srv_members :: "server_member list"

text \<open>The \<^verbatim>\<open>useState\<close> cells of \<^verbatim>\<open>App\<close>, in declaration order.\<close>

record app_state =
  user :: "user option"
  servers :: "server list"
  activeServerId :: "string option"
  activeChannelId :: "string option"
  isVoiceConnected :: bool
  isLoading :: bool
  isMuted :: bool
  isDeafened :: bool
  noiseSuppression :: bool
  inputVolume :: nat
  outputVolume :: nat
  showCreateModal :: bool
  showJoinModal :: bool
  showSettingsModal :: bool
  showServerSettingsModal :: bool

definition initial_state :: app_state where
  "initial_state =
     \<lparr> user = None, servers = [], activeServerId = None, activeChannelId = None,
       isVoiceConnected = False, isLoading = True,
       isMuted = False, isDeafened = False, noiseSuppression = True,
       inputVolume = 100, outputVolume = 100,
       showCreateModal = False, showJoinModal = False,
       showSettingsModal = False, showServerSettingsModal = False \<rparr>"

text \<open>
  What a handler does besides replacing state: the calls into \<^verbatim>\<open>./services/supabase\<close>,
  \<^verbatim>\<open>console.error\<close>, \<^verbatim>\<open>alert\<close>, the write to \<^verbatim>\<open>localStorage\<close>, and a \<^verbatim>\<open>TypeError\<close> that
  no \<^verbatim>\<open>catch\<close> of the handler receives. A handler returns the new state together with
  the effects in program order. The outcome of each remote call (resolve or reject, and
  the resolved value) is an argument of the handler. In these functions a handler runs
  to its end before the next event is handled: no other event is placed between an
  \<^verbatim>\<open>await\<close> and its continuation, and the cells a handler reads are the ones of the
  render that created it, which is the state the handler is applied to. The section on
  the handlers step by step drops this and lets pending calls return in any order.
\<close>

datatype effect =
    UpsertUser user
  | CreateServerInDB server string
  | GetServersForUser string
  | SendMessageToDB message
  | JoinServerInDB string string
  | StoreUser user
  | ConsoleError string
  | Alert string
  | UncaughtTypeError

text \<open>JavaScript truthiness of an optional string: \<^verbatim>\<open>undefined\<close>, \<^verbatim>\<open>null\<close> and \<^verbatim>\<open>''\<close> are falsy.\<close>

definition truthy :: "string option \<Rightarrow> bool" where
  "truthy v = (case v of None \<Rightarrow> False | Some s \<Rightarrow> s \<noteq> [])"

text \<open>\<^verbatim>\<open>v || d\<close> on an optional string.\<close>

definition str_or :: "string option \<Rightarrow> string \<Rightarrow> string" where
  "str_or v d = (case v of None \<Rightarrow> d | Some s \<Rightarrow> if s = [] then d else s)"

section \<open>Audio toggles\<close>

definition toggleMute :: "app_state \<Rightarrow> app_state" where
  "toggleMute st = (if isMuted st then st\<lparr>isMuted := False\<rparr> else st\<lparr>isMuted := True\<rparr>)"

definition toggleDeafen :: "app_state \<Rightarrow> app_state" where
  "toggleDeafen st =
     (if isDeafened st then st\<lparr>isDeafened := False, isMuted := False\<rparr>
      else st\<lparr>isDeafened := True, isMuted := True\<rparr>)"

datatype audio_toggle = ToggleMute | ToggleDeafen

fun apply_toggle :: "audio_toggle \<Rightarrow> app_state \<Rightarrow> app_state" where
  "apply_toggle ToggleMute st = toggleMute st"
| "apply_toggle ToggleDeafen st = toggleDeafen st"

fun run_toggles :: "audio_toggle list \<Rightarrow> app_state \<Rightarrow> app_state" where
  "run_toggles [] st = st"
| "run_toggles (t # ts) st = run_toggles ts (apply_toggle t st)"

section \<open>Realtime bridge: the inbound message handler\<close>

text \<open>
  The callback given to \<^verbatim>\<open>subscribeToChannel\<close> calls \<^verbatim>\<open>setServers\<close> with an updater
  function. \<open>mergeChannel\<close> is the inner arrow function over channels,
  \<open>mergeServer\<close> the outer one over servers. \<^verbatim>\<open>ch.messages?.find(...)\<close> is
  \<^verbatim>\<open>undefined\<close> when the list is missing, and \<^verbatim>\<open>ch.messages || []\<close> reads a missing list
  as empty.
\<close>

definition mergeChannel :: "message \<Rightarrow> channel \<Rightarrow> channel" where
  "mergeChannel newMessage ch =
     (if ch_id ch = channelId newMessage then
        (if (case ch_messages ch of
               None \<Rightarrow> False
             | Some ms \<Rightarrow> List.find (\<lambda>m. msg_id m = msg_id newMessage) ms \<noteq> None)
         then ch
         else ch\<lparr>ch_messages :=
                   Some ((case ch_messages ch of None \<Rightarrow> [] | Some ms \<Rightarrow> ms) @ [newMessage])\<rparr>)
      else ch)"

definition mergeServer :: "message \<Rightarrow> server \<Rightarrow> server" where
  "mergeServer newMessage srv =
     (case List.find (\<lambda>c. ch_id c = channelId newMessage) (srv_channels srv) of
        None \<Rightarrow> srv
      | Some channelExists \<Rightarrow>
          srv\<lparr>srv_channels := map (mergeChannel newMessage) (srv_channels srv)\<rparr>)"

definition onMessage :: "message \<Rightarrow> app_state \<Rightarrow> app_state" where
  "onMessage newMessage st = st\<lparr>servers := map (mergeServer newMessage) (servers st)\<rparr>"

text \<open>A sequence of message events, delivered in order.\<close>

fun deliver :: "message list \<Rightarrow> app_state \<Rightarrow> app_state" where
  "deliver [] st = st"
| "deliver (m # ms) st = deliver ms (onMessage m st)"

text \<open>The message list of a channel as the component reads it (\<^verbatim>\<open>messages || []\<close>).\<close>

definition messages_of :: "channel \<Rightarrow> message list" where
  "messages_of ch = (case ch_messages ch of None \<Rightarrow> [] | Some ms \<Rightarrow> ms)"

text \<open>
  First arrivals: the messages of a sequence whose identifier has not been seen, each
  identifier taken at its first occurrence, in the order of the sequence.
\<close>

fun first_arrivals :: "string set \<Rightarrow> message list \<Rightarrow> message list" where
  "first_arrivals seen [] = []"
| "first_arrivals seen (m # ms) =
     (if msg_id m \<in> seen then first_arrivals seen ms
      else m # first_arrivals (insert (msg_id m) seen) ms)"

section \<open>Loading the server list\<close>

text \<open>
  \<open>loadUserServers res userId st\<close>: \<open>res\<close> is the outcome of \<^verbatim>\<open>getServersForUser\<close>,
  \<open>None\<close> when the call rejects. The \<^verbatim>\<open>catch\<close> also receives the \<^verbatim>\<open>TypeError\<close> of
  \<^verbatim>\<open>userServers[0].channels[0].id\<close> when the first server has no channel; the two
  setter calls before it have been made by then.
\<close>

definition loadUserServers :: "server list option \<Rightarrow> string \<Rightarrow> app_state \<Rightarrow> app_state \<times> effect list" where
  "loadUserServers res userId st =
     (case res of
        None \<Rightarrow> (st, [GetServersForUser userId, ConsoleError ''Failed to load servers:''])
      | Some userServers \<Rightarrow>
          (let st1 = st\<lparr>servers := userServers\<rparr> in
           case userServers of
             [] \<Rightarrow> (st1, [GetServersForUser userId])
           | s0 # rest \<Rightarrow>
               if \<not> truthy (activeServerId st) then
                 (let st2 = st1\<lparr>activeServerId := Some (srv_id s0)\<rparr> in
                  case srv_channels s0 of
                    [] \<Rightarrow> (st2, [GetServersForUser userId, ConsoleError ''Failed to load servers:''])
                  | c0 # cs \<Rightarrow> (st2\<lparr>activeChannelId := Some (ch_id c0)\<rparr>, [GetServersForUser userId]))
               else (st1, [GetServersForUser userId])))"

text \<open>
  The mount effect: \<open>stored\<close> is the user parsed from \<^verbatim>\<open>localStorage\<close>, if any. The load it
  starts is not awaited; it writes cells that the rest of the effect does not touch.
  \<open>bootstrap\<close> is the state once that load has returned with no other event before it.
\<close>

definition bootstrap :: "user option \<Rightarrow> server list option \<Rightarrow> app_state \<Rightarrow> app_state \<times> effect list" where
  "bootstrap stored res st =
     (case stored of
        None \<Rightarrow> (st\<lparr>isLoading := False\<rparr>, [])
      | Some parsedUser \<Rightarrow>
          (case loadUserServers res (u_id parsedUser) (st\<lparr>user := Some parsedUser\<rparr>) of
             (st1, es) \<Rightarrow> (st1\<lparr>isLoading := False\<rparr>, es)))"

definition handleLogin :: "user \<Rightarrow> bool \<Rightarrow> server list option \<Rightarrow> app_state \<Rightarrow> app_state \<times> effect list" where
  "handleLogin newUser upsert_ok res st =
     (if \<not> upsert_ok then
        (st, [UpsertUser newUser, ConsoleError ''Failed to login:'',
              Alert ''Login failed. Please try again.''])
      else
        (case loadUserServers res (u_id newUser) (st\<lparr>user := Some newUser\<rparr>) of
           (st1, es) \<Rightarrow> (st1, [UpsertUser newUser, StoreUser newUser] @ es)))"

section \<open>Command handlers\<close>

text \<open>
  \<open>handleSendMessage channelId content messageId isSystem uuid now send_ok st\<close>:
  \<open>uuid\<close> is what \<^verbatim>\<open>uuidv4()\<close> returns if it is called, \<open>now\<close> is \<^verbatim>\<open>Date.now()\<close>, and
  \<open>send_ok\<close> tells whether \<^verbatim>\<open>sendMessageToDB\<close> resolves.
\<close>

definition handleSendMessage ::
  "string \<Rightarrow> string \<Rightarrow> string option \<Rightarrow> bool option \<Rightarrow> string \<Rightarrow> nat \<Rightarrow> bool \<Rightarrow>
   app_state \<Rightarrow> app_state \<times> effect list" where
  "handleSendMessage chanId body messageId isSys uuid now send_ok st =
     (case user st of
        None \<Rightarrow> (st, [])
      | Some u \<Rightarrow>
          (let newMessage =
                 \<lparr> msg_id = str_or messageId uuid,
                   channelId = chanId,
                   content = body,
                   senderId = u_id u,
                   senderName = u_username u,
                   senderAvatar = u_avatar u,
                   timestamp = now,
                   isSystem = (case isSys of None \<Rightarrow> False | Some b \<Rightarrow> b) \<rparr>
           in if send_ok then (st, [SendMessageToDB newMessage])
              else (st, [SendMessageToDB newMessage, ConsoleError ''Failed to send message:''])))"

text \<open>
  The listener for the \<^verbatim>\<open>gemini-response\<close> event draws an identifier for the bot message
  and sends through \<open>handleSendMessage\<close>.
\<close>

definition handleGeminiResponse ::
  "string \<Rightarrow> string \<Rightarrow> string \<Rightarrow> nat \<Rightarrow> bool \<Rightarrow> app_state \<Rightarrow> app_state \<times> effect list" where
  "handleGeminiResponse chanId body uuid now send_ok st =
     handleSendMessage chanId body (Some uuid) (Some True) uuid now send_ok st"

text \<open>
  \<open>handleCreateServer name password uuids defaultChannels defaultRoles create_ok res st\<close>:
  \<open>uuids k\<close> is the result of the \<open>k\<close>-th call of \<^verbatim>\<open>uuidv4()\<close> in the handler (the server
  identifier first, then one per default channel); \<open>defaultChannels\<close> and \<open>defaultRoles\<close>
  are what \<^verbatim>\<open>getDefaultChannels()\<close> and \<^verbatim>\<open>getDefaultRoles()\<close> of \<^verbatim>\<open>./services/db\<close> return.
\<close>

definition newServerChannels :: "(nat \<Rightarrow> string) \<Rightarrow> channel list \<Rightarrow> channel list" where
  "newServerChannels uuids defaultChannels =
     map (\<lambda>(k, c). c\<lparr>ch_id := uuids (Suc k), ch_messages := Some []\<rparr>)
         (enumerate 0 defaultChannels)"

definition newServerFor ::
  "user \<Rightarrow> string \<Rightarrow> string option \<Rightarrow> (nat \<Rightarrow> string) \<Rightarrow> channel list \<Rightarrow> role list \<Rightarrow> server" where
  "newServerFor u name password uuids defaultChannels defaultRoles =
     \<lparr> srv_id = uuids 0,
       srv_name = name,
       srv_password = password,
       srv_ownerId = u_id u,
       srv_channels = newServerChannels uuids defaultChannels,
       srv_roles = defaultRoles,
       srv_members =
         [\<lparr> m_userId = u_id u, m_username = u_username u,
            m_avatar = str_or (u_avatar u) '''',
            m_roles = [''r-admin''] \<rparr>] \<rparr>"

definition handleCreateServer ::
  "string \<Rightarrow> string option \<Rightarrow> (nat \<Rightarrow> string) \<Rightarrow> channel list \<Rightarrow> role list \<Rightarrow> bool \<Rightarrow>
   server list option \<Rightarrow> app_state \<Rightarrow> app_state \<times> effect list" where
  "handleCreateServer name password uuids defaultChannels defaultRoles create_ok res st =
     (case user st of
        None \<Rightarrow> (st, [])
      | Some u \<Rightarrow>
          (let newServer = newServerFor u name password uuids defaultChannels defaultRoles;
               failed = [ConsoleError ''Failed to create server:'',
                         Alert ''Failed to create server. Please try again.'']
           in if \<not> create_ok then (st, CreateServerInDB newServer (u_id u) # failed)
              else
                (case loadUserServers res (u_id u) st of
                   (st1, es) \<Rightarrow>
                     (let st2 = st1\<lparr>activeServerId := Some (srv_id newServer)\<rparr> in
                      case srv_channels newServer of
                        [] \<Rightarrow> (st2, CreateServerInDB newServer (u_id u) # es @ failed)
                      | c0 # cs \<Rightarrow>
                          (st2\<lparr>activeChannelId := Some (ch_id c0)\<rparr>,
                           CreateServerInDB newServer (u_id u) # es)))))"

definition handleUpdateServer :: "server \<Rightarrow> app_state \<Rightarrow> app_state \<times> effect list" where
  "handleUpdateServer updatedServer st =
     (st\<lparr>servers := map (\<lambda>s. if srv_id s = srv_id updatedServer then updatedServer else s)
                         (servers st)\<rparr>, [])"

text \<open>
  \<open>handleJoinServer name password join_ok res st\<close>: \<open>password\<close> is the value the caller
  supplies (\<open>None\<close> for \<^verbatim>\<open>undefined\<close>), \<open>join_ok\<close> tells whether \<^verbatim>\<open>joinServerInDB\<close>
  resolves, \<open>res\<close> is the outcome of the reload that follows it. The final
  \<^verbatim>\<open>target.channels[0].id\<close> is outside the \<^verbatim>\<open>try\<close>.
\<close>

definition selectTarget :: "server \<Rightarrow> app_state \<times> effect list \<Rightarrow> app_state \<times> effect list" where
  "selectTarget target r =
     (case r of (st1, es) \<Rightarrow>
        (let st2 = st1\<lparr>activeServerId := Some (srv_id target)\<rparr> in
         case srv_channels target of
           [] \<Rightarrow> (st2, es @ [UncaughtTypeError])
         | c0 # cs \<Rightarrow> (st2\<lparr>activeChannelId := Some (ch_id c0)\<rparr>, es)))"

definition handleJoinServer ::
  "string \<Rightarrow> string option \<Rightarrow> bool \<Rightarrow> server list option \<Rightarrow> app_state \<Rightarrow>
   app_state \<times> effect list" where
  "handleJoinServer name password join_ok res st =
     (case user st of
        None \<Rightarrow> (st, [])
      | Some u \<Rightarrow>
          (case List.find (\<lambda>s. srv_name s = name) (servers st) of
             None \<Rightarrow> (st, [Alert ''Server not found.''])
           | Some target \<Rightarrow>
               if truthy (srv_password target) \<and> srv_password target \<noteq> password then
                 (st, [Alert ''Incorrect password!''])
               else if List.find (\<lambda>m. m_userId m = u_id u) (srv_members target) = None then
                 (if join_ok then
                    (case loadUserServers res (u_id u) st of
                       (st1, es) \<Rightarrow>
                         selectTarget target (st1, JoinServerInDB (srv_id target) (u_id u) # es))
                  else
                    (st, [JoinServerInDB (srv_id target) (u_id u),
                          ConsoleError ''Failed to join server:'',
                          Alert ''Failed to join server. Please try again.'']))
               else selectTarget target (st, [])))"

section \<open>View selection\<close>

text \<open>The two constants computed on each render.\<close>

definition activeServer :: "app_state \<Rightarrow> server option" where
  "activeServer st = List.find (\<lambda>s. Some (srv_id s) = activeServerId st) (servers st)"

definition activeChannel :: "app_state \<Rightarrow> channel option" where
  "activeChannel st =
     (case activeServer st of
        None \<Rightarrow> None
      | Some srv \<Rightarrow> List.find (\<lambda>c. Some (ch_id c) = activeChannelId st) (srv_channels srv))"


text \<open>
  \<^verbatim>\<open>onSelectChannel\<close> of \<^verbatim>\<open>ChannelList\<close>, which is rendered only when there is an active
  server; the handler closes over it (\<open>srv\<close>).
\<close>

definition onSelectChannel :: "server \<Rightarrow> string \<Rightarrow> app_state \<Rightarrow> app_state" where
  "onSelectChannel srv i st =
     (let ch = List.find (\<lambda>c. ch_id c = i) (srv_channels srv);
          st1 = st\<lparr>activeChannelId := Some i\<rparr>
      in if (case ch of None \<Rightarrow> False | Some c \<Rightarrow> ch_type c = VoiceChannel)
         then st1\<lparr>isVoiceConnected := True\<rparr>
         else st1\<lparr>isVoiceConnected := False\<rparr>)"

text \<open>
  \<^verbatim>\<open>onLeave\<close> of \<^verbatim>\<open>VoiceStage\<close>; it closes over the active server of the render
  (\<^verbatim>\<open>activeServer?.channels\<close>).
\<close>

definition onLeave :: "server option \<Rightarrow> app_state \<Rightarrow> app_state" where
  "onLeave asrv st =
     (let st1 = st\<lparr>isVoiceConnected := False\<rparr> in
      case (case asrv of
              None \<Rightarrow> None
            | Some srv \<Rightarrow> List.find (\<lambda>c. ch_type c = TextChannel) (srv_channels srv)) of
        None \<Rightarrow> st1
      | Some txt \<Rightarrow> st1\<lparr>activeChannelId := Some (ch_id txt)\<rparr>)"

text \<open>The voice stage, which carries \<^verbatim>\<open>onLeave\<close>, is rendered under this condition.\<close>

definition voiceStageShown :: "app_state \<Rightarrow> bool" where
  "voiceStageShown st =
     (case activeChannel st of
        None \<Rightarrow> False
      | Some c \<Rightarrow> isVoiceConnected st \<and> ch_type c = VoiceChannel)"

section \<open>Validity of the selection\<close>

text \<open>
  An identifier is listed when a loaded server, or a channel of a loaded server, carries
  it. The selection is valid when the active server identifier and the active channel
  identifier are each absent or listed.
\<close>

definition server_listed :: "server list \<Rightarrow> string \<Rightarrow> bool" where
  "server_listed l i = (i \<in> srv_id ` set l)"

definition channel_listed :: "server list \<Rightarrow> string \<Rightarrow> bool" where
  "channel_listed l c = (\<exists>s \<in> set l. c \<in> ch_id ` set (srv_channels s))"

definition selection_valid :: "app_state \<Rightarrow> bool" where
  "selection_valid st =
     ((case activeServerId st of None \<Rightarrow> True | Some i \<Rightarrow> server_listed (servers st) i) \<and>
      (case activeChannelId st of None \<Rightarrow> True | Some c \<Rightarrow> channel_listed (servers st) c))"


section \<open>The handlers step by step\<close>

text \<open>
  The handler functions above run a handler to its end. In the component every \<^verbatim>\<open>await\<close>
  of a remote call gives way to other events, and the load that the mount effect starts
  is not awaited at all. Here a handler is cut at its remote calls. A pending call is a
  task that carries what its continuation has captured: the user identifier, the
  \<open>activeServerId\<close> of the render that created the handler (the one \<^verbatim>\<open>loadUserServers\<close>
  tests), and the server the handler will select once its reload has returned.
\<close>

datatype continuation =
    Finished
  | SelectCreated server
  | SelectJoined server

datatype task =
    AwaitUpsert user "string option"
  | AwaitCreate server string "string option"
  | AwaitJoin server string "string option"
  | AwaitLoad string "string option" continuation

text \<open>
  \<^verbatim>\<open>loadUserServers\<close> after \<^verbatim>\<open>getServersForUser\<close> has returned \<open>res\<close>: the setters act on the
  state of that moment, the test \<^verbatim>\<open>!activeServerId\<close> reads the captured value \<open>asid\<close>.
\<close>

definition loadUserServersFrom ::
  "string option \<Rightarrow> server list option \<Rightarrow> string \<Rightarrow> app_state \<Rightarrow> app_state \<times> effect list" where
  "loadUserServersFrom asid res userId st =
     (case res of
        None \<Rightarrow> (st, [GetServersForUser userId, ConsoleError ''Failed to load servers:''])
      | Some userServers \<Rightarrow>
          (let st1 = st\<lparr>servers := userServers\<rparr> in
           case userServers of
             [] \<Rightarrow> (st1, [GetServersForUser userId])
           | s0 # rest \<Rightarrow>
               if \<not> truthy asid then
                 (let st2 = st1\<lparr>activeServerId := Some (srv_id s0)\<rparr> in
                  case srv_channels s0 of
                    [] \<Rightarrow> (st2, [GetServersForUser userId, ConsoleError ''Failed to load servers:''])
                  | c0 # cs \<Rightarrow> (st2\<lparr>activeChannelId := Some (ch_id c0)\<rparr>, [GetServersForUser userId]))
               else (st1, [GetServersForUser userId])))"

text \<open>
  Each step gives the state after its setter calls and the tasks it leaves pending. The
  mount effect calls \<^verbatim>\<open>setUser\<close>, starts the load and calls \<^verbatim>\<open>setIsLoading(false)\<close>.
\<close>

definition start_mount :: "user option \<Rightarrow> app_state \<Rightarrow> app_state \<times> task list" where
  "start_mount stored st =
     (case stored of
        None \<Rightarrow> (st\<lparr>isLoading := False\<rparr>, [])
      | Some parsedUser \<Rightarrow>
          (st\<lparr>user := Some parsedUser, isLoading := False\<rparr>,
           [AwaitLoad (u_id parsedUser) (activeServerId st) Finished]))"


definition resolve_upsert ::
  "user \<Rightarrow> string option \<Rightarrow> bool \<Rightarrow> app_state \<Rightarrow> app_state \<times> task list" where
  "resolve_upsert newUser asid upsert_ok st =
     (if upsert_ok then (st\<lparr>user := Some newUser\<rparr>, [AwaitLoad (u_id newUser) asid Finished])
      else (st, []))"



definition start_join :: "string \<Rightarrow> string option \<Rightarrow> app_state \<Rightarrow> app_state \<times> task list" where
  "start_join name password st =
     (case user st of
        None \<Rightarrow> (st, [])
      | Some u \<Rightarrow>
          (case List.find (\<lambda>s. srv_name s = name) (servers st) of
             None \<Rightarrow> (st, [])
           | Some target \<Rightarrow>
               if truthy (srv_password target) \<and> srv_password target \<noteq> password then (st, [])
               else if List.find (\<lambda>m. m_userId m = u_id u) (srv_members target) = None then
                 (st, [AwaitJoin target (u_id u) (activeServerId st)])
               else (fst (selectTarget target (st, [])), [])))"


text \<open>
  The reload returns and the handler that awaited it runs to its end: create-server and
  join-server select their server, the mount effect and login have nothing left to do.
  The return of \<^verbatim>\<open>loadUserServers\<close> and the continuation that awaits it run in the same
  turn of the event loop, so they are one step.
\<close>

definition resolve_load ::
  "string \<Rightarrow> string option \<Rightarrow> continuation \<Rightarrow> server list option \<Rightarrow> app_state \<Rightarrow> app_state" where
  "resolve_load userId asid k res st =
     (let st1 = fst (loadUserServersFrom asid res userId st) in
      case k of
        Finished \<Rightarrow> st1
      | SelectCreated newServer \<Rightarrow> fst (selectTarget newServer (st1, []))
      | SelectJoined target \<Rightarrow> fst (selectTarget target (st1, [])))"


section \<open>Example data\<close>

text \<open>
  The example of the specification: a server \<open>S\<close> with channels \<open>general\<close> (text) and
  \<open>stage\<close> (voice), here protected by a password, and a second server without one.
\<close>

definition alice :: user where
  "alice = \<lparr> u_id = ''u1'', u_username = ''alice'', u_avatar = None \<rparr>"

definition general :: channel where
  "general = \<lparr> ch_id = ''c1'', ch_name = ''general'', ch_type = TextChannel, ch_messages = Some [] \<rparr>"

definition stage :: channel where
  "stage = \<lparr> ch_id = ''c2'', ch_name = ''stage'', ch_type = VoiceChannel, ch_messages = None \<rparr>"

definition server_S :: server where
  "server_S = \<lparr> srv_id = ''s1'', srv_name = ''S'', srv_password = Some ''secret'',
                srv_ownerId = ''u0'', srv_channels = [general, stage], srv_roles = [],
                srv_members = [] \<rparr>"

text \<open>The state after mounting with \<open>alice\<close> stored and one server returned.\<close>

definition example_state :: app_state where
  "example_state = fst (bootstrap (Some alice) (Some [server_S]) initial_state)"

definition open_server :: server where
  "open_server = \<lparr> srv_id = ''s2'', srv_name = ''Open'', srv_password = Some [],
                   srv_ownerId = ''u0'', srv_channels = [general], srv_roles = [],
                   srv_members = [] \<rparr>"

text \<open>Messages for the channel \<open>general\<close>, and one for a channel that is not loaded.\<close>

definition hello :: message where
  "hello = \<lparr> msg_id = ''m1'', channelId = ''c1'', content = ''hi'', senderId = ''u1'',
             senderName = ''alice'', senderAvatar = None, timestamp = 1, isSystem = False \<rparr>"

definition reply :: message where
  "reply = \<lparr> msg_id = ''m2'', channelId = ''c1'', content = ''hello'', senderId = ''u2'',
             senderName = ''bob'', senderAvatar = None, timestamp = 2, isSystem = False \<rparr>"

definition stray :: message where
  "stray = \<lparr> msg_id = ''m3'', channelId = ''c9'', content = ''lost'', senderId = ''u2'',
             senderName = ''bob'', senderAvatar = None, timestamp = 3, isSystem = False \<rparr>"

text \<open>Identifiers for \<^verbatim>\<open>uuidv4()\<close>, and the server that create-server builds from them.\<close>

definition example_uuids :: "nat \<Rightarrow> string" where
  "example_uuids k = replicate (Suc k) (CHR ''x'')"

definition created_server :: server where
  "created_server = newServerFor alice ''New'' None example_uuids [general] []"

section \<open>Facts about the example data\<close>

text \<open>The example state, spelled out.\<close>

lemma example_state_eq:
  "example_state =
     initial_state\<lparr> user := Some alice, servers := [server_S], activeServerId := Some ''s1'',
                    activeChannelId := Some ''c1'', isLoading := False \<rparr>"
  by (simp add: alice_def general_def stage_def server_S_def example_state_def
      initial_state_def bootstrap_def loadUserServers_def truthy_def)

section \<open>Properties of the audio toggles\<close>

text \<open>
  Claim C2. After every finite sequence of \<^verbatim>\<open>toggleMute\<close> and \<^verbatim>\<open>toggleDeafen\<close> calls,
  deafened should imply muted. The comment at the head of \<^verbatim>\<open>toggleMute\<close> announces that
  unmuting ensures deafen is off, but the body only flips \<open>isMuted\<close>: from the initial
  state, deafening and then toggling mute ends deafened and not muted.
\<close>

theorem C2_deafen_then_unmute_breaks_invariant:
  "isDeafened (run_toggles [ToggleDeafen, ToggleMute] initial_state) \<and>
   \<not> isMuted (run_toggles [ToggleDeafen, ToggleMute] initial_state)"
  by (simp add: initial_state_def toggleMute_def toggleDeafen_def)

text \<open>
  Claim C7. Each single toggle: a \<^verbatim>\<open>toggleMute\<close> that unmutes leaves \<open>isDeafened\<close> as it
  was, a \<^verbatim>\<open>toggleMute\<close> that mutes leaves \<open>isDeafened\<close> as it was, a \<^verbatim>\<open>toggleDeafen\<close> that
  deafens also sets \<open>isMuted\<close>, and a \<^verbatim>\<open>toggleDeafen\<close> that undeafens also clears \<open>isMuted\<close>.
\<close>

theorem C7_single_toggle_policy:
  "(isMuted st \<longrightarrow> \<not> isMuted (toggleMute st) \<and> isDeafened (toggleMute st) = isDeafened st) \<and>
   (\<not> isMuted st \<longrightarrow> isMuted (toggleMute st) \<and> isDeafened (toggleMute st) = isDeafened st) \<and>
   (\<not> isDeafened st \<longrightarrow> isDeafened (toggleDeafen st) \<and> isMuted (toggleDeafen st)) \<and>
   (isDeafened st \<longrightarrow> \<not> isDeafened (toggleDeafen st) \<and> \<not> isMuted (toggleDeafen st))"
  by (simp add: toggleMute_def toggleDeafen_def)

theorem C7_single_toggle_policy_witness:
  "isMuted (toggleMute initial_state) \<and>
   isDeafened (toggleMute initial_state) = isDeafened initial_state \<and>
   \<not> isMuted (toggleMute (toggleMute initial_state)) \<and>
   isDeafened (toggleMute (toggleMute initial_state)) = isDeafened (toggleMute initial_state) \<and>
   isDeafened (toggleDeafen initial_state) \<and> isMuted (toggleDeafen initial_state) \<and>
   \<not> isDeafened (toggleDeafen (toggleDeafen initial_state)) \<and>
   \<not> isMuted (toggleDeafen (toggleDeafen initial_state))"
proof -
  have m0: "\<not> isMuted initial_state" and d0: "\<not> isDeafened initial_state"
    by (simp_all add: initial_state_def)
  note a = C7_single_toggle_policy [of initial_state]
  from a m0 have m1: "isMuted (toggleMute initial_state)"
    and k1: "isDeafened (toggleMute initial_state) = isDeafened initial_state"
    by blast+
  from a d0 have d1: "isDeafened (toggleDeafen initial_state)"
    and dm1: "isMuted (toggleDeafen initial_state)"
    by blast+
  note b = C7_single_toggle_policy [of "toggleMute initial_state"]
  from b m1 have m2: "\<not> isMuted (toggleMute (toggleMute initial_state))"
    and k2: "isDeafened (toggleMute (toggleMute initial_state)) = isDeafened (toggleMute initial_state)"
    by blast+
  note c = C7_single_toggle_policy [of "toggleDeafen initial_state"]
  from c d1 have d2: "\<not> isDeafened (toggleDeafen (toggleDeafen initial_state))"
    and dm2: "\<not> isMuted (toggleDeafen (toggleDeafen initial_state))"
    by blast+
  from m1 k1 m2 k2 d1 dm1 d2 dm2 show ?thesis by blast
qed


section \<open>Properties of the realtime bridge\<close>

lemma mergeChannel_spec:
  "mergeChannel m c =
     (if ch_id c = channelId m \<and> msg_id m \<notin> msg_id ` set (messages_of c)
      then c\<lparr>ch_messages := Some (messages_of c @ [m])\<rparr> else c)"
proof (cases "ch_messages c")
  case None
  then show ?thesis by (simp add: mergeChannel_def messages_of_def)
next
  case (Some old)
  have "(List.find (\<lambda>x. msg_id x = msg_id m) old = None) = (msg_id m \<notin> msg_id ` set old)"
    unfolding find_None_iff image_iff by metis
  with Some show ?thesis by (simp add: mergeChannel_def messages_of_def)
qed

lemma mergeChannel_other: "ch_id c \<noteq> channelId m \<Longrightarrow> mergeChannel m c = c"
  by (simp add: mergeChannel_def)

lemma mergeServer_eq:
  "mergeServer m s = s\<lparr>srv_channels := map (mergeChannel m) (srv_channels s)\<rparr>"
proof (cases "List.find (\<lambda>c. ch_id c = channelId m) (srv_channels s)")
  case None
  then have "\<forall>c \<in> set (srv_channels s). mergeChannel m c = c"
    by (auto simp: find_None_iff mergeChannel_other)
  then have "map (mergeChannel m) (srv_channels s) = srv_channels s"
    by (simp add: map_idI)
  with None show ?thesis by (simp add: mergeServer_def)
next
  case (Some a)
  then show ?thesis by (simp add: mergeServer_def)
qed

lemma deliver_eq:
  "deliver ms st =
     st\<lparr>servers := map (\<lambda>s. s\<lparr>srv_channels := map (fold mergeChannel ms) (srv_channels s)\<rparr>)
                         (servers st)\<rparr>"
proof (induction ms arbitrary: st)
  case Nil
  have "map (\<lambda>s::server. s\<lparr>srv_channels := map (fold mergeChannel []) (srv_channels s)\<rparr>) (servers st) = servers st"
    by (simp add: map_idI)
  then show ?case by simp
next
  case (Cons m ms)
  show ?case
    by (simp add: Cons.IH onMessage_def mergeServer_eq comp_def)
qed

lemma mergeChannel_id: "ch_id (mergeChannel m c) = ch_id c"
  by (simp add: mergeChannel_spec)

lemma mergeChannel_messages:
  "messages_of (mergeChannel m c) =
     (if ch_id c = channelId m \<and> msg_id m \<notin> msg_id ` set (messages_of c)
      then messages_of c @ [m] else messages_of c)"
proof -
  have "messages_of (c\<lparr>ch_messages := Some (messages_of c @ [m])\<rparr>) = messages_of c @ [m]"
    by (simp add: messages_of_def)
  then show ?thesis by (simp add: mergeChannel_spec)
qed

lemma fold_merge_id: "ch_id (fold mergeChannel ms c) = ch_id c"
  by (induction ms arbitrary: c) (simp_all add: mergeChannel_id)

lemma fold_merge_messages:
  "messages_of (fold mergeChannel ms c) =
     messages_of c @ first_arrivals (msg_id ` set (messages_of c)) [m \<leftarrow> ms. channelId m = ch_id c]"
proof (induction ms arbitrary: c)
  case Nil
  show ?case by simp
next
  case (Cons m ms)
  let ?c1 = "mergeChannel m c"
  have step: "messages_of (fold mergeChannel (m # ms) c) =
      messages_of ?c1 @ first_arrivals (msg_id ` set (messages_of ?c1)) [x \<leftarrow> ms. channelId x = ch_id c]"
    using Cons.IH [of ?c1] by (simp add: mergeChannel_id)
  show ?case
  proof (cases "ch_id c = channelId m \<and> msg_id m \<notin> msg_id ` set (messages_of c)")
    case True
    then have "messages_of ?c1 = messages_of c @ [m]" by (simp add: mergeChannel_messages)
    with step True show ?thesis by simp
  next
    case False
    then have "messages_of ?c1 = messages_of c" by (simp add: mergeChannel_messages)
    with step False show ?thesis by auto
  qed
qed

lemma first_arrivals_fresh: "msg_id ` set (first_arrivals seen ms) \<inter> seen = {}"
  by (induction ms arbitrary: seen) auto

lemma first_arrivals_distinct: "distinct (map msg_id (first_arrivals seen ms))"
proof (induction ms arbitrary: seen)
  case Nil
  show ?case by simp
next
  case (Cons m ms)
  from first_arrivals_fresh [of "insert (msg_id m) seen" ms]
  have "msg_id m \<notin> msg_id ` set (first_arrivals (insert (msg_id m) seen) ms)" by blast
  with Cons.IH show ?case by simp
qed

lemma first_arrivals_covers:
  "msg_id ` set (first_arrivals seen ms) \<union> seen = msg_id ` set ms \<union> seen"
proof (induction ms arbitrary: seen)
  case Nil
  show ?case by simp
next
  case (Cons m ms)
  show ?case
  proof (cases "msg_id m \<in> seen")
    case True
    with Cons.IH [of seen] show ?thesis by auto
  next
    case False
    with Cons.IH [of "insert (msg_id m) seen"] show ?thesis by auto
  qed
qed

lemma distinct_count_one: "distinct xs \<Longrightarrow> x \<in> set xs \<Longrightarrow> count_list xs x = 1"
  by (induction xs) auto

text \<open>
  Claim C1. Take the channel \<open>c\<close> at position \<open>j\<close> of the server at position \<open>i\<close>.
  One message event \<open>m\<close> leaves \<open>c\<close> as it is unless the identifier of \<open>c\<close> is the
  message's \<open>channelId\<close> and no message of \<open>c\<close> has the identifier of \<open>m\<close>; in that case
  \<open>m\<close> is appended. After a sequence \<open>ms\<close> of events the lists of servers and channels
  have the lengths they had, the channel has its identifier, and its message list is the
  old list followed by the first arrivals among the messages of \<open>ms\<close> addressed to it
  (append-only, in arrival order). Every identifier delivered to the channel is in the
  list, and when the old list had no identifier twice, neither has the new one: each
  delivered identifier occurs exactly once.
\<close>

theorem C1_merge_dedup_first_arrival:
  assumes "i < length (servers st)" and "j < length (srv_channels (servers st ! i))"
    and "c = srv_channels (servers st ! i) ! j"
    and "c1 = srv_channels (servers (onMessage m st) ! i) ! j"
    and "c' = srv_channels (servers (deliver ms st) ! i) ! j"
  shows "c1 = (if ch_id c = channelId m \<and> msg_id m \<notin> msg_id ` set (messages_of c)
               then c\<lparr>ch_messages := Some (messages_of c @ [m])\<rparr> else c) \<and>
         length (servers (deliver ms st)) = length (servers st) \<and>
         length (srv_channels (servers (deliver ms st) ! i)) = length (srv_channels (servers st ! i)) \<and>
         ch_id c' = ch_id c \<and>
         messages_of c' =
           messages_of c @
           first_arrivals (msg_id ` set (messages_of c)) [x \<leftarrow> ms. channelId x = ch_id c] \<and>
         (\<forall>x \<in> set ms. channelId x = ch_id c \<longrightarrow> msg_id x \<in> msg_id ` set (messages_of c')) \<and>
         (distinct (map msg_id (messages_of c)) \<longrightarrow>
            distinct (map msg_id (messages_of c')) \<and>
            (\<forall>x \<in> set ms. channelId x = ch_id c \<longrightarrow>
               count_list (map msg_id (messages_of c')) (msg_id x) = 1))"
proof -
  let ?seen = "msg_id ` set (messages_of c)"
  let ?for_c = "[x \<leftarrow> ms. channelId x = ch_id c]"
  let ?new = "first_arrivals ?seen ?for_c"
  have one: "onMessage m st = deliver [m] st" by simp
  have c1: "c1 = mergeChannel m c"
    using assms(1,2) by (simp add: assms(3,4) one deliver_eq del: deliver.simps)
  have c': "c' = fold mergeChannel ms c"
    using assms(1,2) by (simp add: assms(3,5) deliver_eq)
  have step: "c1 = (if ch_id c = channelId m \<and> msg_id m \<notin> ?seen
               then c\<lparr>ch_messages := Some (messages_of c @ [m])\<rparr> else c)"
    by (simp only: c1 mergeChannel_spec)
  have len: "length (servers (deliver ms st)) = length (servers st)"
    by (simp add: deliver_eq)
  have len': "length (srv_channels (servers (deliver ms st) ! i)) = length (srv_channels (servers st ! i))"
    using assms(1) by (simp add: deliver_eq)
  have ident: "ch_id c' = ch_id c" by (simp add: c' fold_merge_id)
  have msgs: "messages_of c' = messages_of c @ ?new"
    by (simp only: c' fold_merge_messages)
  have ids: "msg_id ` set (messages_of c') = msg_id ` set ?for_c \<union> ?seen"
    using first_arrivals_covers [of ?seen ?for_c] by (simp add: msgs image_Un Un_commute)
  have present: "\<forall>x \<in> set ms. channelId x = ch_id c \<longrightarrow> msg_id x \<in> msg_id ` set (messages_of c')"
    unfolding ids by auto
  have once: "distinct (map msg_id (messages_of c')) \<and>
      (\<forall>x \<in> set ms. channelId x = ch_id c \<longrightarrow>
         count_list (map msg_id (messages_of c')) (msg_id x) = 1)"
    if d: "distinct (map msg_id (messages_of c))"
  proof -
    have "set (map msg_id (messages_of c)) \<inter> set (map msg_id ?new) = {}"
      using first_arrivals_fresh [of ?seen ?for_c] by auto
    with d first_arrivals_distinct [of ?seen ?for_c]
    have d': "distinct (map msg_id (messages_of c'))"
      by (simp add: msgs)
    from present have "\<forall>x \<in> set ms. channelId x = ch_id c \<longrightarrow>
        msg_id x \<in> set (map msg_id (messages_of c'))" by simp
    with d' show ?thesis by (simp add: distinct_count_one del: set_map)
  qed
  from step len len' ident msgs present once show ?thesis by blast
qed

theorem C1_merge_dedup_first_arrival_witness:
  "(0::nat) < length (servers example_state) \<and>
   (0::nat) < length (srv_channels (servers example_state ! 0)) \<and>
   distinct (map msg_id (messages_of general)) \<and>
   messages_of (srv_channels (servers (deliver [hello, reply, hello, stray] example_state) ! 0) ! 0) =
     [hello, reply] \<and>
   count_list (map msg_id (messages_of
      (srv_channels (servers (deliver [hello, reply, hello, stray] example_state) ! 0) ! 0))) ''m1'' = 1"
proof -
  let ?ms = "[hello, reply, hello, stray]"
  let ?c' = "srv_channels (servers (deliver ?ms example_state) ! 0) ! 0"
  have i: "(0::nat) < length (servers example_state)"
    by (simp add: example_state_eq)
  have j: "(0::nat) < length (srv_channels (servers example_state ! 0))"
    by (simp add: example_state_eq server_S_def)
  have c: "general = srv_channels (servers example_state ! 0) ! 0"
    by (simp add: example_state_eq server_S_def)
  have old: "messages_of general = []" and cid: "ch_id general = ''c1''"
    by (simp_all add: messages_of_def general_def)
  have d: "distinct (map msg_id (messages_of general))"
    by (simp add: old)
  have for_c: "[x \<leftarrow> ?ms. channelId x = ch_id general] = [hello, reply, hello]"
    by (simp add: cid hello_def reply_def stray_def)
  have new: "first_arrivals (msg_id ` set []) [hello, reply, hello] = [hello, reply]"
    by (simp add: hello_def reply_def)
  have h: "hello \<in> set ?ms" "channelId hello = ch_id general" "msg_id hello = ''m1''"
    by (simp_all add: hello_def cid)
  note t = C1_merge_dedup_first_arrival [OF i j c refl refl, of hello ?ms]
  from t have "messages_of ?c' =
      messages_of general @
      first_arrivals (msg_id ` set (messages_of general)) [x \<leftarrow> ?ms. channelId x = ch_id general]"
    by blast
  then have m: "messages_of ?c' = [hello, reply]"
    by (simp only: for_c new old append_Nil)
  from t d h(1,2) have "count_list (map msg_id (messages_of ?c')) (msg_id hello) = 1"
    by blast
  then have k: "count_list (map msg_id (messages_of ?c')) ''m1'' = 1"
    by (simp only: h(3))
  from i j d m k show ?thesis by blast
qed

section \<open>Properties of the command handlers\<close>

lemma join_after_check:
  assumes "user st = Some u"
    and "List.find (\<lambda>s. srv_name s = name) (servers st) = Some target"
    and "\<not> truthy (srv_password target)"
  shows "handleJoinServer name password join_ok res st =
     (if List.find (\<lambda>m. m_userId m = u_id u) (srv_members target) = None then
        (if join_ok then
           selectTarget target
             (fst (loadUserServers res (u_id u) st),
              JoinServerInDB (srv_id target) (u_id u) # snd (loadUserServers res (u_id u) st))
         else
           (st, [JoinServerInDB (srv_id target) (u_id u),
                 ConsoleError ''Failed to join server:'',
                 Alert ''Failed to join server. Please try again.'']))
      else selectTarget target (st, []))"
  using assms by (simp add: handleJoinServer_def split: prod.splits)

lemma selectTarget_fst:
  "activeServerId (fst (selectTarget target r)) = Some (srv_id target)"
  "srv_channels target = c0 # cs \<Longrightarrow> activeChannelId (fst (selectTarget target r)) = Some (ch_id c0)"
  by (simp_all add: selectTarget_def Let_def split: prod.splits list.splits)

lemma selectTarget_snd:
  "snd (selectTarget target (s, es)) = es \<or> snd (selectTarget target (s, es)) = es @ [UncaughtTypeError]"
  by (simp add: selectTarget_def Let_def split: list.splits)

lemma loadUserServers_effects:
  "set (snd (loadUserServers res uid st)) \<subseteq>
     {GetServersForUser uid, ConsoleError ''Failed to load servers:''}"
  by (auto simp: loadUserServers_def Let_def split: option.splits list.splits)

text \<open>
  Claim C4. When the server found by name has a non-empty password and the supplied
  password differs from it, \<open>handleJoinServer\<close> returns the state it was given (so the
  server list and the active server and channel are as before), and its only possible
  effect is the alert: no call of \<^verbatim>\<open>joinServerInDB\<close> is made.
\<close>

theorem C4_wrong_password_changes_nothing:
  assumes "List.find (\<lambda>s. srv_name s = name) (servers st) = Some target"
    and "srv_password target = Some pw" and "pw \<noteq> []" and "password \<noteq> Some pw"
  shows "fst (handleJoinServer name password join_ok res st) = st \<and>
         set (snd (handleJoinServer name password join_ok res st)) \<subseteq> {Alert ''Incorrect password!''} \<and>
         JoinServerInDB sid uid \<notin> set (snd (handleJoinServer name password join_ok res st)) \<and>
         servers (fst (handleJoinServer name password join_ok res st)) = servers st \<and>
         activeServerId (fst (handleJoinServer name password join_ok res st)) = activeServerId st \<and>
         activeChannelId (fst (handleJoinServer name password join_ok res st)) = activeChannelId st"
  using assms by (auto simp: handleJoinServer_def truthy_def split: option.splits)

theorem C4_wrong_password_changes_nothing_witness:
  "fst (handleJoinServer ''S'' (Some ''guess'') True (Some []) example_state) = example_state \<and>
   JoinServerInDB ''s1'' ''u1'' \<notin> set (snd (handleJoinServer ''S'' (Some ''guess'') True (Some []) example_state)) \<and>
   snd (handleJoinServer ''S'' (Some ''guess'') True (Some []) example_state) = [Alert ''Incorrect password!'']"
proof -
  have f: "List.find (\<lambda>s. srv_name s = ''S'') (servers example_state) = Some server_S"
    by (simp add: example_state_eq server_S_def)
  have p: "srv_password server_S = Some ''secret''" by (simp add: server_S_def)
  have e: "snd (handleJoinServer ''S'' (Some ''guess'') True (Some []) example_state) = [Alert ''Incorrect password!'']"
    by (simp add: handleJoinServer_def example_state_eq server_S_def alice_def truthy_def)
  from C4_wrong_password_changes_nothing [OF f p, of "Some ''guess''" True "Some []" "''s1''" "''u1''"] e
  show ?thesis by simp
qed

text \<open>
  Claim C5. \<open>handleSendMessage\<close> returns the state it was given whether the remote write
  resolves or rejects, so no message is inserted locally and every channel's message
  list is as before; when a user is logged in and the write rejects, the effects are the
  write followed by the log line.
\<close>

theorem C5_send_never_changes_state:
  "fst (handleSendMessage chanId body messageId isSys uuid now send_ok st) = st \<and>
   servers (fst (handleSendMessage chanId body messageId isSys uuid now send_ok st)) = servers st \<and>
   (user st \<noteq> None \<and> \<not> send_ok \<longrightarrow>
      (\<exists>msg. snd (handleSendMessage chanId body messageId isSys uuid now send_ok st) =
         [SendMessageToDB msg, ConsoleError ''Failed to send message:'']))"
  by (auto simp: handleSendMessage_def Let_def split: option.splits)

theorem C5_send_never_changes_state_witness:
  "fst (handleSendMessage ''c1'' ''hi'' None None ''m1'' 7 False example_state) = example_state \<and>
   ConsoleError ''Failed to send message:'' \<in> set (snd (handleSendMessage ''c1'' ''hi'' None None ''m1'' 7 False example_state))"
proof -
  have u: "user example_state \<noteq> None" by (simp add: example_state_eq)
  from C5_send_never_changes_state [of "''c1''" "''hi''" None None "''m1''" 7 False example_state] u
  show ?thesis by auto
qed

text \<open>
  Claim C8. \<open>handleUpdateServer U\<close> has no effect besides the state, keeps the length of
  the server list, puts \<open>U\<close> at every position whose server has the identifier of \<open>U\<close>,
  keeps every other position, and changes no other cell of the state.
\<close>

theorem C8_update_replaces_by_id:
  "snd (handleUpdateServer U st) = [] \<and>
   length (servers (fst (handleUpdateServer U st))) = length (servers st) \<and>
   (\<forall>i < length (servers st).
      servers (fst (handleUpdateServer U st)) ! i =
        (if srv_id (servers st ! i) = srv_id U then U else servers st ! i)) \<and>
   fst (handleUpdateServer U st) = st\<lparr>servers := servers (fst (handleUpdateServer U st))\<rparr>"
  by (simp add: handleUpdateServer_def)

theorem C8_update_replaces_by_id_witness:
  "(0::nat) < length (servers example_state) \<and>
   servers (fst (handleUpdateServer (server_S\<lparr>srv_name := ''T''\<rparr>) example_state)) ! 0 = server_S\<lparr>srv_name := ''T''\<rparr>"
proof -
  have l: "(0::nat) < length (servers example_state)" by (simp add: example_state_eq)
  have i: "srv_id (servers example_state ! 0) = srv_id (server_S\<lparr>srv_name := ''T''\<rparr>)"
    by (simp add: example_state_eq)
  from C8_update_replaces_by_id [of "server_S\<lparr>srv_name := ''T''\<rparr>" example_state] l i
  show ?thesis by simp
qed

lemma join_falsy_password_logged_in:
  assumes "user st = Some u"
    and "List.find (\<lambda>s. srv_name s = name) (servers st) = Some target"
    and "srv_password target = None \<or> srv_password target = Some []"
  shows "handleJoinServer name password join_ok res st =
           handleJoinServer name password' join_ok res st \<and>
         Alert ''Incorrect password!'' \<notin> set (snd (handleJoinServer name password join_ok res st)) \<and>
         (List.find (\<lambda>m. m_userId m = u_id u) (srv_members target) = None \<longrightarrow>
            hd (snd (handleJoinServer name password join_ok res st)) =
              JoinServerInDB (srv_id target) (u_id u)) \<and>
         (List.find (\<lambda>m. m_userId m = u_id u) (srv_members target) \<noteq> None \<longrightarrow>
            snd (handleJoinServer name password join_ok res st) = [] \<or>
            snd (handleJoinServer name password join_ok res st) = [UncaughtTypeError]) \<and>
         (List.find (\<lambda>m. m_userId m = u_id u) (srv_members target) \<noteq> None \<or> join_ok \<longrightarrow>
            activeServerId (fst (handleJoinServer name password join_ok res st)) = Some (srv_id target) \<and>
            (\<forall>c0 cs. srv_channels target = c0 # cs \<longrightarrow>
               activeChannelId (fst (handleJoinServer name password join_ok res st)) = Some (ch_id c0)))"
proof -
  from assms(3) have nt: "\<not> truthy (srv_password target)"
    by (auto simp: truthy_def)
  note eq = join_after_check [OF assms(1) assms(2) nt]
  let ?r = "handleJoinServer name password join_ok res st"
  let ?absent = "List.find (\<lambda>m. m_userId m = u_id u) (srv_members target) = None"
  let ?l = "loadUserServers res (u_id u) st"
  let ?j = "JoinServerInDB (srv_id target) (u_id u)"
  have indep: "?r = handleJoinServer name password' join_ok res st"
    by (simp only: eq)
  have member: "snd ?r = [] \<or> snd ?r = [UncaughtTypeError]"
    and member_sel: "fst ?r = fst (selectTarget target (st, []))" if "\<not> ?absent"
    using selectTarget_snd [of target st "[]"] by (simp_all only: eq if_not_P [OF that] append_Nil)
  have joined: "snd ?r = ?j # snd ?l \<or> snd ?r = (?j # snd ?l) @ [UncaughtTypeError]"
    and joined_sel: "fst ?r = fst (selectTarget target (fst ?l, ?j # snd ?l))"
    if "?absent" and "join_ok"
    using selectTarget_snd [of target "fst ?l" "?j # snd ?l"]
    by (simp_all only: eq if_P [OF that(1)] if_P [OF that(2)])
  have failed: "?r = (st, [?j, ConsoleError ''Failed to join server:'',
                           Alert ''Failed to join server. Please try again.''])"
    if "?absent" and "\<not> join_ok"
    by (simp only: eq if_P [OF that(1)] if_not_P [OF that(2)])
  have load: "Alert ''Incorrect password!'' \<notin> set (snd ?l)"
    using loadUserServers_effects [of res "u_id u" st] by auto
  have noalert: "Alert ''Incorrect password!'' \<notin> set (snd ?r)"
  proof (cases ?absent)
    case False
    from member [OF False] show ?thesis by auto
  next
    case True
    show ?thesis
    proof (cases join_ok)
      case True
      from joined [OF \<open>?absent\<close> True] load show ?thesis by auto
    next
      case False
      from failed [OF \<open>?absent\<close> False] show ?thesis by simp
    qed
  qed
  have first: "?absent \<longrightarrow> hd (snd ?r) = ?j"
  proof
    assume a: ?absent
    show "hd (snd ?r) = ?j"
    proof (cases join_ok)
      case True
      from joined [OF a True] show ?thesis by auto
    next
      case False
      from failed [OF a False] show ?thesis by simp
    qed
  qed
  have nowrite: "\<not> ?absent \<longrightarrow> snd ?r = [] \<or> snd ?r = [UncaughtTypeError]"
    using member by blast
  have sel: "\<not> ?absent \<or> join_ok \<longrightarrow>
      activeServerId (fst ?r) = Some (srv_id target) \<and>
      (\<forall>c0 cs. srv_channels target = c0 # cs \<longrightarrow> activeChannelId (fst ?r) = Some (ch_id c0))"
  proof
    assume h: "\<not> ?absent \<or> join_ok"
    have "\<exists>r. fst ?r = fst (selectTarget target r)"
    proof (cases ?absent)
      case False
      from member_sel [OF False] show ?thesis by blast
    next
      case True
      with h have "join_ok" by blast
      from joined_sel [OF True this] show ?thesis by blast
    qed
    then obtain r where "fst ?r = fst (selectTarget target r)" ..
    then show "activeServerId (fst ?r) = Some (srv_id target) \<and>
      (\<forall>c0 cs. srv_channels target = c0 # cs \<longrightarrow> activeChannelId (fst ?r) = Some (ch_id c0))"
      by (simp add: selectTarget_fst)
  qed
  from indep noalert first nowrite sel show ?thesis by blast
qed

text \<open>
  Claim C9. For a target whose password is absent or empty, the result of
  \<open>handleJoinServer\<close> is the same for every supplied password and never contains the
  wrong-password alert. With a user logged in the handler goes on to the membership
  step: its first effect is the membership write when the user is not among the members,
  it makes no remote call when the user is, and it selects the target (and the target's
  first channel, if it has one) whenever the user is a member already or the write
  resolves.
\<close>

theorem C9_falsy_password_never_rejects:
  assumes "List.find (\<lambda>s. srv_name s = name) (servers st) = Some target"
    and "srv_password target = None \<or> srv_password target = Some []"
  shows "handleJoinServer name password join_ok res st =
           handleJoinServer name password' join_ok res st \<and>
         Alert ''Incorrect password!'' \<notin> set (snd (handleJoinServer name password join_ok res st)) \<and>
         (\<forall>u. user st = Some u \<longrightarrow>
            (List.find (\<lambda>m. m_userId m = u_id u) (srv_members target) = None \<longrightarrow>
               hd (snd (handleJoinServer name password join_ok res st)) =
                 JoinServerInDB (srv_id target) (u_id u)) \<and>
            (List.find (\<lambda>m. m_userId m = u_id u) (srv_members target) \<noteq> None \<longrightarrow>
               snd (handleJoinServer name password join_ok res st) = [] \<or>
               snd (handleJoinServer name password join_ok res st) = [UncaughtTypeError]) \<and>
            (List.find (\<lambda>m. m_userId m = u_id u) (srv_members target) \<noteq> None \<or> join_ok \<longrightarrow>
               activeServerId (fst (handleJoinServer name password join_ok res st)) =
                 Some (srv_id target) \<and>
               (\<forall>c0 cs. srv_channels target = c0 # cs \<longrightarrow>
                  activeChannelId (fst (handleJoinServer name password join_ok res st)) =
                    Some (ch_id c0))))"
proof (cases "user st")
  case None
  have "handleJoinServer name pw join_ok res st = (st, [])" for pw
    by (simp add: handleJoinServer_def None)
  then show ?thesis by (simp add: None)
next
  case (Some u)
  let ?r = "handleJoinServer name password join_ok res st"
  let ?P = "\<lambda>u.
     (List.find (\<lambda>m. m_userId m = u_id u) (srv_members target) = None \<longrightarrow>
        hd (snd ?r) = JoinServerInDB (srv_id target) (u_id u)) \<and>
     (List.find (\<lambda>m. m_userId m = u_id u) (srv_members target) \<noteq> None \<longrightarrow>
        snd ?r = [] \<or> snd ?r = [UncaughtTypeError]) \<and>
     (List.find (\<lambda>m. m_userId m = u_id u) (srv_members target) \<noteq> None \<or> join_ok \<longrightarrow>
        activeServerId (fst ?r) = Some (srv_id target) \<and>
        (\<forall>c0 cs. srv_channels target = c0 # cs \<longrightarrow>
           activeChannelId (fst ?r) = Some (ch_id c0)))"
  note l = join_falsy_password_logged_in [OF Some assms, of password join_ok res password']
  from l have a: "?r = handleJoinServer name password' join_ok res st"
    by (rule conjunct1)
  from l have b: "Alert ''Incorrect password!'' \<notin> set (snd ?r)"
    by (rule conjunct2 [THEN conjunct1])
  from l have c: "?P u"
    by (rule conjunct2 [THEN conjunct2])
  have d: "\<forall>v. user st = Some v \<longrightarrow> ?P v"
  proof (intro allI impI)
    fix v
    assume "user st = Some v"
    with Some have "v = u" by simp
    then show "?P v" using c by (simp only:)
  qed
  show ?thesis by (rule conjI [OF a conjI [OF b d]])
qed

theorem C9_falsy_password_never_rejects_witness:
  "handleJoinServer ''Open'' (Some ''anything'') True None (example_state\<lparr>servers := [server_S, open_server]\<rparr>) =
     handleJoinServer ''Open'' None True None (example_state\<lparr>servers := [server_S, open_server]\<rparr>) \<and>
   Alert ''Incorrect password!'' \<notin>
     set (snd (handleJoinServer ''Open'' (Some ''anything'') True None (example_state\<lparr>servers := [server_S, open_server]\<rparr>))) \<and>
   hd (snd (handleJoinServer ''Open'' (Some ''anything'') True None (example_state\<lparr>servers := [server_S, open_server]\<rparr>))) =
     JoinServerInDB ''s2'' ''u1'' \<and>
   activeServerId (fst (handleJoinServer ''Open'' (Some ''anything'') True None (example_state\<lparr>servers := [server_S, open_server]\<rparr>))) = Some ''s2'' \<and>
   activeChannelId (fst (handleJoinServer ''Open'' (Some ''anything'') True None (example_state\<lparr>servers := [server_S, open_server]\<rparr>))) = Some ''c1''"
proof -
  let ?st = "example_state\<lparr>servers := [server_S, open_server]\<rparr>"
  have u: "user ?st = Some alice" by (simp add: example_state_eq)
  have f: "List.find (\<lambda>s. srv_name s = ''Open'') (servers ?st) = Some open_server"
    by (simp add: server_S_def open_server_def)
  have p: "srv_password open_server = None \<or> srv_password open_server = Some []"
    by (simp add: open_server_def)
  have m: "List.find (\<lambda>m. m_userId m = u_id alice) (srv_members open_server) = None"
    by (simp add: open_server_def)
  have c: "srv_channels open_server = general # []" by (simp add: open_server_def)
  have i: "srv_id open_server = ''s2''" "u_id alice = ''u1''" "ch_id general = ''c1''"
    by (simp_all add: open_server_def alice_def general_def)
  note t = C9_falsy_password_never_rejects [OF f p, of "Some ''anything''" True None None]
  let ?r = "handleJoinServer ''Open'' (Some ''anything'') True None ?st"
  from t have 1: "?r = handleJoinServer ''Open'' None True None ?st" by blast
  from t have 2: "Alert ''Incorrect password!'' \<notin> set (snd ?r)" by blast
  from t u m have "hd (snd ?r) = JoinServerInDB (srv_id open_server) (u_id alice)" by blast
  then have 3: "hd (snd ?r) = JoinServerInDB ''s2'' ''u1''" by (simp only: i)
  from t u have "activeServerId (fst ?r) = Some (srv_id open_server)" by blast
  then have 4: "activeServerId (fst ?r) = Some ''s2''" by (simp only: i)
  from t u c have "activeChannelId (fst ?r) = Some (ch_id general)" by blast
  then have 5: "activeChannelId (fst ?r) = Some ''c1''" by (simp only: i)
  from 1 2 3 4 5 show ?thesis by blast
qed

text \<open>
  Claim C10. With no user logged in, the send-message, create-server and join-server
  handlers return the state unchanged and have no effect at all.
\<close>

theorem C10_no_user_no_action:
  assumes "user st = None"
  shows "handleSendMessage chanId body messageId isSys uuid now send_ok st = (st, []) \<and>
         handleCreateServer name password uuids defaultChannels defaultRoles create_ok res st = (st, []) \<and>
         handleJoinServer name password join_ok res st = (st, [])"
  using assms by (simp add: handleSendMessage_def handleCreateServer_def handleJoinServer_def)

theorem C10_no_user_no_action_witness:
  "handleSendMessage ''c1'' ''hi'' None None ''m1'' 7 True initial_state = (initial_state, []) \<and>
   handleCreateServer ''S'' None (\<lambda>k. ''x'') [general] [] True (Some [server_S]) initial_state = (initial_state, []) \<and>
   handleJoinServer ''S'' (Some ''secret'') True (Some [server_S]) initial_state = (initial_state, [])"
proof -
  have u: "user initial_state = None" by (simp add: initial_state_def)
  show ?thesis using C10_no_user_no_action [OF u] by blast
qed

section \<open>Properties of the view selection\<close>

text \<open>
  Claim C6. With an active server, \<open>onSelectChannel i\<close> sets \<open>isVoiceConnected\<close> to true
  exactly when the channel found under \<open>i\<close> among the active server's channels is a
  voice channel, and makes \<open>i\<close> the active channel; \<open>onLeave\<close> clears the flag and makes
  the first text channel of the active server the active channel when there is one
  (the active channel stays as it was when there is none).
\<close>

theorem C6_voice_flag_follows_channel_type:
  assumes "activeServer st = Some srv"
  shows "isVoiceConnected (onSelectChannel srv i st) =
           (\<exists>c. List.find (\<lambda>c. ch_id c = i) (srv_channels srv) = Some c \<and> ch_type c = VoiceChannel) \<and>
         activeChannelId (onSelectChannel srv i st) = Some i \<and>
         \<not> isVoiceConnected (onLeave (activeServer st) st) \<and>
         (\<forall>txt. List.find (\<lambda>c. ch_type c = TextChannel) (srv_channels srv) = Some txt \<longrightarrow>
            activeChannelId (onLeave (activeServer st) st) = Some (ch_id txt)) \<and>
         (List.find (\<lambda>c. ch_type c = TextChannel) (srv_channels srv) = None \<longrightarrow>
            activeChannelId (onLeave (activeServer st) st) = activeChannelId st)"
  using assms by (auto simp: onSelectChannel_def onLeave_def Let_def split: option.splits)

theorem C6_voice_flag_follows_channel_type_witness:
  "activeServer example_state = Some server_S \<and>
   isVoiceConnected (onSelectChannel server_S ''c2'' example_state) \<and>
   activeChannelId (onSelectChannel server_S ''c2'' example_state) = Some ''c2'' \<and>
   voiceStageShown (onSelectChannel server_S ''c2'' example_state) \<and>
   \<not> isVoiceConnected (onSelectChannel server_S ''c1'' example_state) \<and>
   \<not> isVoiceConnected (onLeave (activeServer (onSelectChannel server_S ''c2'' example_state))
                            (onSelectChannel server_S ''c2'' example_state)) \<and>
   activeChannelId (onLeave (activeServer (onSelectChannel server_S ''c2'' example_state))
                            (onSelectChannel server_S ''c2'' example_state)) = Some ''c1''"
proof -
  let ?v = "onSelectChannel server_S ''c2'' example_state"
  have a: "activeServer example_state = Some server_S"
    by (simp add: activeServer_def example_state_eq server_S_def)
  have a': "activeServer ?v = Some server_S"
    by (simp add: activeServer_def onSelectChannel_def example_state_eq server_S_def stage_def general_def)
  have f2: "List.find (\<lambda>c. ch_id c = ''c2'') (srv_channels server_S) = Some stage"
    by (simp add: server_S_def stage_def general_def)
  have f1: "List.find (\<lambda>c. ch_id c = ''c1'') (srv_channels server_S) = Some general"
    by (simp add: server_S_def stage_def general_def)
  have t: "List.find (\<lambda>c. ch_type c = TextChannel) (srv_channels server_S) = Some general"
    by (simp add: server_S_def general_def)
  have ty: "ch_type stage = VoiceChannel" "ch_type general = TextChannel" "ch_id general = ''c1''"
    by (simp_all add: stage_def general_def)
  from C6_voice_flag_follows_channel_type [OF a, of "''c2''"] f2 ty
  have s2: "isVoiceConnected ?v" "activeChannelId ?v = Some ''c2''" by simp_all
  have shown: "voiceStageShown ?v"
    by (simp add: voiceStageShown_def activeChannel_def a' s2 f2 ty)
  from C6_voice_flag_follows_channel_type [OF a, of "''c1''"] f1 ty
  have s1: "\<not> isVoiceConnected (onSelectChannel server_S ''c1'' example_state)" by simp
  from C6_voice_flag_follows_channel_type [OF a', of "''c2''"] t ty
  have l: "\<not> isVoiceConnected (onLeave (activeServer ?v) ?v)"
    "activeChannelId (onLeave (activeServer ?v) ?v) = Some ''c1''" by simp_all
  from a s2 shown s1 l show ?thesis by simp
qed

section \<open>Properties of the selection\<close>

lemma selection_validI:
  assumes "\<And>i. activeServerId st = Some i \<Longrightarrow> server_listed (servers st) i"
    and "\<And>c. activeChannelId st = Some c \<Longrightarrow> channel_listed (servers st) c"
  shows "selection_valid st"
  using assms by (simp add: selection_valid_def split: option.splits)












text \<open>Run without interruption, the steps give the states of the handler functions.\<close>

lemma loadUserServers_from:
  "loadUserServers res uid st = loadUserServersFrom (activeServerId st) res uid st"
  by (simp add: loadUserServers_def loadUserServersFrom_def)

lemma mount_run_to_end:
  "resolve_load (u_id u) (activeServerId st) Finished res (fst (start_mount (Some u) st)) =
     fst (bootstrap (Some u) res st)"
  by (simp add: resolve_load_def start_mount_def bootstrap_def loadUserServers_def
      loadUserServersFrom_def Let_def split: option.splits list.splits)


lemma join_run_to_end:
  assumes "user st = Some u"
    and "List.find (\<lambda>s. srv_name s = name) (servers st) = Some target"
    and "\<not> (truthy (srv_password target) \<and> srv_password target \<noteq> password)"
    and "List.find (\<lambda>m. m_userId m = u_id u) (srv_members target) = None"
  shows "start_join name password st = (st, [AwaitJoin target (u_id u) (activeServerId st)])"
    and "fst (handleJoinServer name password join_ok res st) =
           (if join_ok
            then resolve_load (u_id u) (activeServerId st) (SelectJoined target) res st
            else st)"
proof -
  show "start_join name password st = (st, [AwaitJoin target (u_id u) (activeServerId st)])"
    using assms by (simp add: start_join_def)
  have sel: "fst (selectTarget target (s1, es)) = fst (selectTarget target (s1, []))" for s1 es
    by (simp add: selectTarget_def Let_def split: list.splits)
  have "handleJoinServer name password join_ok res st =
      (if join_ok then
         (case loadUserServers res (u_id u) st of
            (st1, es) \<Rightarrow> selectTarget target (st1, JoinServerInDB (srv_id target) (u_id u) # es))
       else
         (st, [JoinServerInDB (srv_id target) (u_id u),
               ConsoleError ''Failed to join server:'',
               Alert ''Failed to join server. Please try again.'']))"
    by (simp only: handleJoinServer_def assms(1,2,4) option.case if_not_P [OF assms(3)]
        simp_thms if_True)
  then show "fst (handleJoinServer name password join_ok res st) =
           (if join_ok
            then resolve_load (u_id u) (activeServerId st) (SelectJoined target) res st
            else st)"
    by (simp add: resolve_load_def loadUserServers_from sel [of _ "_ # _"] split: prod.splits)
qed

lemma login_run_to_end:
  "fst (handleLogin newUser upsert_ok res st) =
     (if upsert_ok
      then resolve_load (u_id newUser) (activeServerId st) Finished res
             (fst (resolve_upsert newUser (activeServerId st) upsert_ok st))
      else st)"
  by (simp add: handleLogin_def resolve_load_def resolve_upsert_def loadUserServers_from
      split: prod.splits)






text \<open>
  Cases in which the list in force after a reload lists what is selected. A reload
  that rejects under the mount effect or login changes nothing. Under the mount effect
  or login a list that lists what was selected is enough. Under create-server or
  join-server a list that lists the server about to be selected is enough when that
  server has a channel, whatever was selected before.
\<close>

lemma rejected_load_valid:
  "selection_valid st \<Longrightarrow> selection_valid (resolve_load userId asid Finished None st)"
  by (simp add: resolve_load_def loadUserServersFrom_def)

lemma kept_load_valid:
  assumes k: "selection_valid (st\<lparr>servers := us\<rparr>)"
  shows "selection_valid (resolve_load userId asid Finished (Some us) st)"
proof (cases us)
  case Nil
  with k show ?thesis by (simp add: resolve_load_def loadUserServersFrom_def)
next
  case (Cons s0 rest)
  show ?thesis
  proof (cases "truthy asid")
    case True
    with Cons k show ?thesis by (simp add: resolve_load_def loadUserServersFrom_def)
  next
    case False
    have s: "server_listed (s0 # rest) (srv_id s0)"
      by (simp add: server_listed_def)
    from k Cons have ch: "\<And>c. activeChannelId st = Some c \<Longrightarrow> channel_listed (s0 # rest) c"
      by (simp add: selection_valid_def split: option.splits)
    show ?thesis
    proof (cases "srv_channels s0")
      case Nil
      with Cons False s ch show ?thesis
        by (auto simp: resolve_load_def loadUserServersFrom_def Let_def intro!: selection_validI)
    next
      case c: (Cons c0 cs)
      then have "channel_listed (s0 # rest) (ch_id c0)"
        by (simp add: channel_listed_def)
      with Cons False s c show ?thesis
        by (auto simp: resolve_load_def loadUserServersFrom_def Let_def intro!: selection_validI)
    qed
  qed
qed



text \<open>
  The schedule that the un-awaited mount load allows: create-server is submitted while
  the mount load is pending, its reload returns the created server and the handler
  selects it, and then the mount load returns late with the empty list.
\<close>

lemma late_mount_load_breaks_selection:
  "\<not> selection_valid
       (resolve_load ''u1'' None Finished (Some [])
          (resolve_load ''u1'' None (SelectCreated created_server) (Some [created_server])
             (fst (start_mount (Some alice) initial_state))))"
  by (simp add: resolve_load_def loadUserServersFrom_def selectTarget_def start_mount_def
      initial_state_def created_server_def newServerFor_def newServerChannels_def
      general_def alice_def example_uuids_def truthy_def str_or_def
      selection_valid_def server_listed_def channel_listed_def Let_def)





end
